theory Spec2Isabelle
  imports Complex_Main "HOL-Library.Sublist"
begin

section \<open>Symbol normalisation (main.py, normalize_symbol)\<close>

text \<open>
  Python's \<^verbatim>\<open>str.endswith(suffix)\<close>: the last \<open>len(suffix)\<close> characters of the
  string are compared with the suffix, character by character and case-sensitively; a
  string shorter than the suffix does not end with it.
\<close>

definition endswith :: "string \<Rightarrow> string \<Rightarrow> bool" where
  "endswith s suf = (length suf \<le> length s \<and> drop (length s - length suf) s = suf)"

text \<open>
  \<^verbatim>\<open>
  def normalize_symbol(symbol: str) -> str:
      if not (symbol.endswith(".NS") or symbol.endswith(".BO")):
          symbol = f"{symbol}.NS"
      return symbol
  \<close>
\<close>

definition normalize_symbol :: "string \<Rightarrow> string" where
  "normalize_symbol symbol =
     (if \<not> (endswith symbol ''.NS'' \<or> endswith symbol ''.BO'')
      then symbol @ ''.NS''
      else symbol)"

text \<open>\<^verbatim>\<open>return [normalize_symbol(s) for s in symbols]\<close>\<close>

definition normalize_symbols :: "string list \<Rightarrow> string list" where
  "normalize_symbols symbols = map normalize_symbol symbols"


section \<open>Floating-point values\<close>

text \<open>
  The numbers of the pipeline are IEEE doubles held in numpy arrays and pandas frames.
  They are modelled by their exact real value, together with the three special values
  that numpy produces instead of raising: the two infinities and NaN. NaN is also the
  marker pandas uses for a missing observation. The arithmetic operations below are
  exact: their rounding error, overflow and the sign of zero (taken as positive) are
  outside the model. Rounding to a double is modelled where the source's result rests
  on it: in \<^verbatim>\<open>round\<close> and in the literal \<^verbatim>\<open>0.01\<close> (see \<open>round_double\<close>).
\<close>

datatype npfloat = Fin real | PInf | MInf | NaN

fun isnan :: "npfloat \<Rightarrow> bool" where
  "isnan NaN = True"
| "isnan _ = False"

fun fneg :: "npfloat \<Rightarrow> npfloat" where
  "fneg (Fin a) = Fin (- a)"
| "fneg PInf = MInf"
| "fneg MInf = PInf"
| "fneg NaN = NaN"

fun fadd :: "npfloat \<Rightarrow> npfloat \<Rightarrow> npfloat" where
  "fadd (Fin a) (Fin b) = Fin (a + b)"
| "fadd NaN _ = NaN"
| "fadd _ NaN = NaN"
| "fadd PInf MInf = NaN"
| "fadd MInf PInf = NaN"
| "fadd PInf _ = PInf"
| "fadd _ PInf = PInf"
| "fadd MInf _ = MInf"
| "fadd _ MInf = MInf"

definition fsub :: "npfloat \<Rightarrow> npfloat \<Rightarrow> npfloat" where
  "fsub a b = fadd a (fneg b)"

fun fmul :: "npfloat \<Rightarrow> npfloat \<Rightarrow> npfloat" where
  "fmul (Fin a) (Fin b) = Fin (a * b)"
| "fmul NaN _ = NaN"
| "fmul _ NaN = NaN"
| "fmul PInf (Fin b) = (if b = 0 then NaN else if 0 < b then PInf else MInf)"
| "fmul MInf (Fin b) = (if b = 0 then NaN else if 0 < b then MInf else PInf)"
| "fmul (Fin a) PInf = (if a = 0 then NaN else if 0 < a then PInf else MInf)"
| "fmul (Fin a) MInf = (if a = 0 then NaN else if 0 < a then MInf else PInf)"
| "fmul PInf PInf = PInf"
| "fmul PInf MInf = MInf"
| "fmul MInf PInf = MInf"
| "fmul MInf MInf = PInf"

text \<open>Division never raises in numpy: \<open>x/0\<close> is an infinity and \<open>0/0\<close> is NaN.\<close>

fun fdiv :: "npfloat \<Rightarrow> npfloat \<Rightarrow> npfloat" where
  "fdiv (Fin a) (Fin b) =
     (if b \<noteq> 0 then Fin (a / b)
      else if a = 0 then NaN else if 0 < a then PInf else MInf)"
| "fdiv NaN _ = NaN"
| "fdiv _ NaN = NaN"
| "fdiv (Fin a) PInf = Fin 0"
| "fdiv (Fin a) MInf = Fin 0"
| "fdiv PInf (Fin b) = (if 0 \<le> b then PInf else MInf)"
| "fdiv MInf (Fin b) = (if 0 \<le> b then MInf else PInf)"
| "fdiv _ _ = NaN"

fun fsqrt :: "npfloat \<Rightarrow> npfloat" where
  "fsqrt (Fin a) = (if 0 \<le> a then Fin (sqrt a) else NaN)"
| "fsqrt PInf = PInf"
| "fsqrt MInf = NaN"
| "fsqrt NaN = NaN"

fun fabs :: "npfloat \<Rightarrow> npfloat" where
  "fabs (Fin a) = Fin \<bar>a\<bar>"
| "fabs PInf = PInf"
| "fabs MInf = PInf"
| "fabs NaN = NaN"

text \<open>Comparisons: every comparison with NaN is false.\<close>

fun fgt :: "npfloat \<Rightarrow> npfloat \<Rightarrow> bool" where
  "fgt (Fin a) (Fin b) = (b < a)"
| "fgt NaN _ = False"
| "fgt _ NaN = False"
| "fgt _ PInf = False"
| "fgt PInf _ = True"
| "fgt MInf _ = False"
| "fgt _ MInf = True"

fun fle :: "npfloat \<Rightarrow> npfloat \<Rightarrow> bool" where
  "fle (Fin a) (Fin b) = (a \<le> b)"
| "fle NaN _ = False"
| "fle _ NaN = False"
| "fle MInf _ = True"
| "fle _ PInf = True"
| "fle _ _ = False"

text \<open>Rounding to the nearest integer, a tie going to the even one (\<^verbatim>\<open>rint\<close>).\<close>

definition rint :: "real \<Rightarrow> int" where
  "rint r =
     (let f = \<lfloor>r\<rfloor>; d = r - of_int f
      in if d < 1 / 2 then f
         else if 1 / 2 < d then f + 1
         else if even f then f else f + 1)"

text \<open>
  The double nearest to a real number (IEEE 754 binary64, round to nearest, ties to
  even): 53 significant bits at the exponent of the number, the exponent not below
  \<open>-1022\<close> (subnormal numbers), and an infinity when the rounded magnitude reaches
  \<open>2^1024\<close>. It gives the result of one double operation from its exact result, and
  the double that a decimal literal denotes.
\<close>

definition round_double :: "real \<Rightarrow> npfloat" where
  "round_double x =
     (if x = 0 then Fin 0
      else
        (let e = max \<lfloor>log 2 \<bar>x\<bar>\<rfloor> (- 1022);
             ulp = 2 powi (e - 52);
             r = of_int (rint (x / ulp)) * ulp
         in if 2 ^ 1024 \<le> \<bar>r\<bar> then (if 0 < x then PInf else MInf) else Fin r))"

text \<open>
  \<^verbatim>\<open>round(v, ndigits)\<close> on a numpy double, as numpy computes it: the double product
  \<open>v * 10^ndigits\<close>, then \<^verbatim>\<open>rint\<close>, then the double quotient by \<open>10^ndigits\<close>.
  Infinities and NaN are returned as they are.
\<close>

fun py_round :: "npfloat \<Rightarrow> nat \<Rightarrow> npfloat" where
  "py_round (Fin a) ndigits =
     (case round_double (a * 10 ^ ndigits) of
        Fin p \<Rightarrow> round_double (of_int (rint p) / 10 ^ ndigits)
      | PInf \<Rightarrow> PInf
      | MInf \<Rightarrow> MInf
      | NaN \<Rightarrow> NaN)"
| "py_round PInf ndigits = PInf"
| "py_round MInf ndigits = MInf"
| "py_round NaN ndigits = NaN"

declare py_round.simps(1) [simp del]

primrec fsum :: "npfloat list \<Rightarrow> npfloat" where
  "fsum [] = Fin 0"
| "fsum (v # vs) = fadd v (fsum vs)"

text \<open>\<^verbatim>\<open>np.dot\<close> of two vectors, and of a matrix (a list of rows) with a vector.\<close>

definition np_dot :: "npfloat list \<Rightarrow> npfloat list \<Rightarrow> npfloat" where
  "np_dot a b = fsum (map2 fmul a b)"

definition np_matvec :: "npfloat list list \<Rightarrow> npfloat list \<Rightarrow> npfloat list" where
  "np_matvec m v = map (\<lambda>row. np_dot row v) m"


section \<open>Price and returns frames\<close>

text \<open>
  A pandas frame is held column by column: the row labels (dates, as day numbers), the
  column names, and for each column its values, one per row label. A cell without an
  observation holds NaN.
\<close>

record dataframe =
  df_index :: "int list"
  df_columns :: "string list"
  df_values :: "npfloat list list"

type_synonym series = "(int \<times> npfloat) list"

text \<open>
  The market-data provider (\<^verbatim>\<open>ticker.history(period=period)["Close"]\<close>) is an external
  collaborator: a parameter of the model. It answers a normalised symbol and a period
  with the closing prices by ascending date, possibly none, or raises (\<open>Inl\<close> carries
  \<^verbatim>\<open>str(e)\<close> of the exception).
\<close>

type_synonym provider = "string \<Rightarrow> string \<Rightarrow> string + series"

text \<open>
  \<^verbatim>\<open>pd.concat(df_list, axis=1)\<close>: an empty list raises; otherwise the frames' row labels
  are the sorted union of the series' dates (outer join) and a series without a value
  at a date gets NaN there.
\<close>

definition reindex :: "int list \<Rightarrow> series \<Rightarrow> npfloat list" where
  "reindex idx s = map (\<lambda>d. case map_of s d of None \<Rightarrow> NaN | Some v \<Rightarrow> v) idx"

definition pd_concat :: "(string \<times> series) list \<Rightarrow> string + dataframe" where
  "pd_concat df_list =
     (if df_list = [] then Inl ''No objects to concatenate''
      else
        (let idx = sort (remdups (concat (map (\<lambda>(name, s). map fst s) df_list)))
         in Inr \<lparr>df_index = idx,
                 df_columns = map fst df_list,
                 df_values = map (\<lambda>(name, s). reindex idx s) df_list\<rparr>))"

text \<open>
  \<^verbatim>\<open>
  def fetch_historical_data(symbols: list, period: str = "1y") -> pd.DataFrame:
      normalized = normalize_symbols(symbols)
      tickers = get_multiple_tickers(tuple(normalized))
      df_list = []
      for norm_symbol, orig_symbol in zip(normalized, symbols):
          ticker = tickers[norm_symbol]
          data = ticker.history(period=period)["Close"]
          data.rename(orig_symbol, inplace=True)
          df_list.append(data)
      prices_df = pd.concat(df_list, axis=1)
      return prices_df
  \<close>
  The loop asks the provider for the normalised symbol and names the series after the
  symbol as the caller wrote it; the first exception ends the loop. The memoising
  \<^verbatim>\<open>get_multiple_tickers\<close> only hands out the provider's handles and is not modelled.
\<close>

fun fetch_loop :: "provider \<Rightarrow> string \<Rightarrow> (string \<times> string) list \<Rightarrow> string + (string \<times> series) list" where
  "fetch_loop history period [] = Inr []"
| "fetch_loop history period ((norm_symbol, orig_symbol) # rest) =
     (case history norm_symbol period of
        Inl e \<Rightarrow> Inl e
      | Inr data \<Rightarrow>
          (case fetch_loop history period rest of
             Inl e \<Rightarrow> Inl e
           | Inr df_list \<Rightarrow> Inr ((orig_symbol, data) # df_list)))"

definition fetch_historical_data :: "provider \<Rightarrow> string list \<Rightarrow> string \<Rightarrow> string + dataframe" where
  "fetch_historical_data history symbols period =
     (let normalized = normalize_symbols symbols
      in case fetch_loop history period (zip normalized symbols) of
           Inl e \<Rightarrow> Inl e
         | Inr df_list \<Rightarrow> pd_concat df_list)"

text \<open>
  \<^verbatim>\<open>DataFrame.pct_change()\<close> with no argument. Up to pandas 2 the default
  \<^verbatim>\<open>fill_method='pad'\<close> first replaces every missing value by the last value observed
  above it in its column; from pandas 3 on nothing is filled. The source does not pin
  the version, so the default is a parameter. Then each value is divided by the value
  one row above and 1 is subtracted; the first row has nothing above it and is NaN.
\<close>

datatype fill_method = Pad | NoFill

fun ffill_from :: "npfloat \<Rightarrow> npfloat list \<Rightarrow> npfloat list" where
  "ffill_from prev [] = []"
| "ffill_from prev (v # vs) =
     (let v' = (if isnan v then prev else v) in v' # ffill_from v' vs)"

definition ffill :: "npfloat list \<Rightarrow> npfloat list" where
  "ffill c = ffill_from NaN c"

definition filled :: "fill_method \<Rightarrow> npfloat list \<Rightarrow> npfloat list" where
  "filled fm c = (case fm of Pad \<Rightarrow> ffill c | NoFill \<Rightarrow> c)"

definition shift1 :: "npfloat list \<Rightarrow> npfloat list" where
  "shift1 c = (if c = [] then [] else NaN # butlast c)"

definition pct_change_col :: "fill_method \<Rightarrow> npfloat list \<Rightarrow> npfloat list" where
  "pct_change_col fm c =
     (let d = filled fm c
      in map2 (\<lambda>cur prev. fsub (fdiv cur prev) (Fin 1)) d (shift1 d))"

definition pct_change :: "fill_method \<Rightarrow> dataframe \<Rightarrow> dataframe" where
  "pct_change fm df = df\<lparr>df_values := map (pct_change_col fm) (df_values df)\<rparr>"

text \<open>
  \<^verbatim>\<open>DataFrame.dropna()\<close>: a row is kept when none of its cells is NaN (an infinity is
  kept).
\<close>

definition row_mask :: "nat \<Rightarrow> npfloat list list \<Rightarrow> bool list" where
  "row_mask n cols =
     foldr (\<lambda>c m. map2 (\<lambda>v keep. \<not> isnan v \<and> keep) c m) cols (replicate n True)"

definition select_rows :: "bool list \<Rightarrow> 'a list \<Rightarrow> 'a list" where
  "select_rows m vs = map fst (filter snd (zip vs m))"

definition dropna :: "dataframe \<Rightarrow> dataframe" where
  "dropna df =
     (let m = row_mask (length (df_index df)) (df_values df)
      in df\<lparr>df_index := select_rows m (df_index df),
             df_values := map (select_rows m) (df_values df)\<rparr>)"

text \<open>
  \<^verbatim>\<open>
  def calculate_returns(price_df: pd.DataFrame) -> pd.DataFrame:
      returns = price_df.pct_change().dropna()
      return returns
  \<close>
\<close>

definition calculate_returns :: "fill_method \<Rightarrow> dataframe \<Rightarrow> dataframe" where
  "calculate_returns fm price_df = dropna (pct_change fm price_df)"


section \<open>The optimizer (main.py, optimize_portfolio)\<close>

text \<open>
  \<^verbatim>\<open>returns.mean()\<close>: the mean of each column over its values that are not NaN; a
  column without such a value has mean NaN (\<open>0/0\<close>).
\<close>

definition pd_mean :: "npfloat list \<Rightarrow> npfloat" where
  "pd_mean c =
     (let vs = filter (\<lambda>v. \<not> isnan v) c
      in fdiv (fsum vs) (Fin (real (length vs))))"

text \<open>
  \<^verbatim>\<open>returns.cov()\<close>: for each pair of columns the sample covariance (divisor \<open>n - 1\<close>)
  over the rows where both have a value; NaN when there is no such row or only one.
\<close>

definition pd_cov_pair :: "npfloat list \<Rightarrow> npfloat list \<Rightarrow> npfloat" where
  "pd_cov_pair a b =
     (let ps = filter (\<lambda>(u, v). \<not> isnan u \<and> \<not> isnan v) (zip a b);
          n = length ps;
          ma = fdiv (fsum (map fst ps)) (Fin (real n));
          mb = fdiv (fsum (map snd ps)) (Fin (real n));
          s = fsum (map (\<lambda>(u, v). fmul (fsub u ma) (fsub v mb)) ps)
      in if n < 1 then NaN
         else if n - 1 \<noteq> 0 then fdiv s (Fin (real (n - 1))) else NaN)"

definition pd_cov :: "npfloat list list \<Rightarrow> npfloat list list" where
  "pd_cov cols = map (\<lambda>a. map (\<lambda>b. pd_cov_pair a b) cols) cols"

text \<open>
  \<^verbatim>\<open>
  def portfolio_performance(weights):
      portfolio_return = np.dot(weights, mean_returns)
      portfolio_volatility = np.sqrt(np.dot(weights.T, np.dot(cov_matrix, weights)))
      return portfolio_return / portfolio_volatility  # Sharpe Ratio
  \<close>
  The closure's free variables \<open>mean_returns\<close> and \<open>cov_matrix\<close> are parameters here.
\<close>

definition portfolio_performance ::
    "npfloat list \<Rightarrow> npfloat list list \<Rightarrow> npfloat list \<Rightarrow> npfloat" where
  "portfolio_performance mean_returns cov_matrix weights =
     (let portfolio_return = np_dot weights mean_returns;
          portfolio_volatility = fsqrt (np_dot weights (np_matvec cov_matrix weights))
      in fdiv portfolio_return portfolio_volatility)"

text \<open>
  The solver (\<^verbatim>\<open>scipy.optimize.minimize\<close>) is an external collaborator: a parameter of
  the model. It is handed the arguments the source builds and answers with a result
  object, of which the source reads \<^verbatim>\<open>success\<close> and \<^verbatim>\<open>x\<close>, or raises.
\<close>

record minimize_args =
  objective :: "npfloat list \<Rightarrow> npfloat"
  init_guess :: "npfloat list"
  solver_method :: string
  bounds :: "(npfloat \<times> npfloat) list"
  constraints :: "(string \<times> (npfloat list \<Rightarrow> npfloat)) list"

record optimize_result =
  success :: bool
  xvec :: "npfloat list"

type_synonym solver = "minimize_args \<Rightarrow> string + optimize_result"

text \<open>
  \<^verbatim>\<open>
  constraints = {"type": "eq", "fun": lambda x: np.sum(x) - 1}
  bounds = tuple((0, 1) for _ in range(num_stocks))
  init_guess = np.array([1.0 / num_stocks] * num_stocks)
  result = minimize(lambda w: -portfolio_performance(w), init_guess,
                    method="SLSQP", bounds=bounds, constraints=constraints)
  \<close>
\<close>

definition solver_call :: "npfloat list \<Rightarrow> npfloat list list \<Rightarrow> minimize_args" where
  "solver_call mean_returns cov_matrix =
     (let num_stocks = length mean_returns
      in \<lparr>objective = (\<lambda>w. fneg (portfolio_performance mean_returns cov_matrix w)),
          init_guess = replicate num_stocks (Fin (1 / real num_stocks)),
          solver_method = ''SLSQP'',
          bounds = replicate num_stocks (Fin 0, Fin 1),
          constraints = [(''eq'', \<lambda>x. fsub (fsum x) (Fin 1))]\<rparr>)"

text \<open>
  \<^verbatim>\<open>
  weight_dict = {
      symbol: round(weight, 4)
      for symbol, weight in zip(returns.columns, optimized_weights)
      if weight > 0.01
  }
  \<close>
  The pairs are visited in order; a later pair with the same symbol replaces the entry.
  The literal \<^verbatim>\<open>0.01\<close> is the double nearest to one hundredth, which is a little above
  it.
\<close>

definition weight_dict :: "string list \<Rightarrow> npfloat list \<Rightarrow> (string \<rightharpoonup> npfloat)" where
  "weight_dict cols optimized_weights =
     fold (\<lambda>(symbol, weight) d.
             if fgt weight (round_double (1 / 100))
             then d(symbol \<mapsto> py_round weight 4) else d)
          (zip cols optimized_weights) Map.empty"

text \<open>
  The text of the \<^verbatim>\<open>ValueError\<close> that \<^verbatim>\<open>np.dot\<close> raises on two vectors of different
  lengths, for example \<^verbatim>\<open>shapes (3,) and (2,) not aligned: 3 (dim 0) != 2 (dim 0)\<close>.
\<close>

fun show_nat :: "nat \<Rightarrow> string" where
  "show_nat n =
     (if n < 10 then [''0123456789'' ! n]
      else show_nat (n div 10) @ [''0123456789'' ! (n mod 10)])"

definition shapes_error :: "nat \<Rightarrow> nat \<Rightarrow> string" where
  "shapes_error k n =
     ''shapes ('' @ show_nat k @ '',) and ('' @ show_nat n @ '',) not aligned: ''
     @ show_nat k @ '' (dim 0) != '' @ show_nat n @ '' (dim 0)''"

record allocation =
  weights :: "string \<rightharpoonup> npfloat"
  expected_return :: npfloat
  expected_volatility :: npfloat

text \<open>
  \<^verbatim>\<open>
  if result.success:
      optimized_weights = result.x
      expected_return = np.dot(optimized_weights, mean_returns)
      expected_volatility = np.sqrt(
          np.dot(optimized_weights.T, np.dot(cov_matrix, optimized_weights)))
      weight_dict = {...}
      return {
          "weights": weight_dict,
          "expected_return": round(expected_return * 100, 2),  # %
          "expected_volatility": round(expected_volatility * 100, 2),  # %
      }
  else:
      raise ValueError("Optimization failed")
  \<close>
  Exceptions are values: \<open>Inl\<close> carries \<^verbatim>\<open>str(e)\<close>. Python raises on \<^verbatim>\<open>1.0 / num_stocks\<close>
  for a frame without columns, and \<^verbatim>\<open>np.dot\<close> raises on vectors of different lengths.
\<close>

definition optimize_portfolio :: "solver \<Rightarrow> dataframe \<Rightarrow> string + allocation" where
  "optimize_portfolio minimize returns =
     (let mean_returns = map pd_mean (df_values returns);
          cov_matrix = pd_cov (df_values returns);
          num_stocks = length mean_returns
      in if num_stocks = 0 then Inl ''float division by zero''
         else
           (case minimize (solver_call mean_returns cov_matrix) of
              Inl e \<Rightarrow> Inl e
            | Inr result \<Rightarrow>
                if success result then
                  (let optimized_weights = xvec result
                   in if length optimized_weights \<noteq> num_stocks
                      then Inl (shapes_error (length optimized_weights) num_stocks)
                      else
                        (let expected_return = np_dot optimized_weights mean_returns;
                             expected_volatility =
                               fsqrt (np_dot optimized_weights
                                        (np_matvec cov_matrix optimized_weights))
                         in Inr \<lparr>weights =
                                    weight_dict (df_columns returns) optimized_weights,
                                  expected_return =
                                    py_round (fmul expected_return (Fin 100)) 2,
                                  expected_volatility =
                                    py_round (fmul expected_volatility (Fin 100)) 2\<rparr>))
                else Inl ''Optimization failed''))"


section \<open>The tool (main.py, analyze_portfolio)\<close>

text \<open>
  \<^verbatim>\<open>
  try:
      price_data = fetch_historical_data(symbols)
      returns_data = calculate_returns(price_data)
      best_allocation = optimize_portfolio(returns_data)
      result = {"status": "success",
                "optimized_allocation": best_allocation["weights"],
                "expected_return": best_allocation["expected_return"],
                "expected_volatility": best_allocation["expected_volatility"],
                "symbols": symbols, "period": "1y", "details": "..."}
      return result
  except Exception as e:
      return {"status": "error", "message": f"Error optimizing portfolio: {str(e)}"}
  \<close>
  The two dictionaries are the two constructors; the fixed \<^verbatim>\<open>details\<close> text of the
  success dictionary is left out. Every exception of a stage is caught here.
\<close>

datatype tool_result =
    ToolSuccess (optimized_allocation: "string \<rightharpoonup> npfloat")
                (result_expected_return: npfloat)
                (result_expected_volatility: npfloat)
                (result_symbols: "string list")
                (result_period: string)
  | ToolError (message: string)

fun status :: "tool_result \<Rightarrow> string" where
  "status (ToolSuccess a r v s p) = ''success''"
| "status (ToolError m) = ''error''"

definition analyze_portfolio ::
    "provider \<Rightarrow> fill_method \<Rightarrow> solver \<Rightarrow> string list \<Rightarrow> tool_result" where
  "analyze_portfolio history fm minimize symbols =
     (case fetch_historical_data history symbols ''1y'' of
        Inl e \<Rightarrow> ToolError (''Error optimizing portfolio: '' @ e)
      | Inr price_data \<Rightarrow>
          (let returns_data = calculate_returns fm price_data
           in case optimize_portfolio minimize returns_data of
                Inl e \<Rightarrow> ToolError (''Error optimizing portfolio: '' @ e)
              | Inr best_allocation \<Rightarrow>
                  ToolSuccess (weights best_allocation)
                              (expected_return best_allocation)
                              (expected_volatility best_allocation)
                              symbols ''1y''))"


section \<open>The solver's side of the contract\<close>

text \<open>The arguments \<open>optimize_portfolio\<close> hands to the solver for a returns frame.\<close>

definition optimizer_call :: "dataframe \<Rightarrow> minimize_args" where
  "optimizer_call returns =
     solver_call (map pd_mean (df_values returns)) (pd_cov (df_values returns))"

text \<open>
  With no usable row the objective of the call is NaN at every point. SciPy's
  \<open>minimize\<close> is outside the source; the one assumption about it that the theorems on
  such requests name is that it does not report success at a point where the objective
  it was given evaluates to NaN.
\<close>

definition nan_aware :: "solver \<Rightarrow> bool" where
  "nan_aware minimize =
     (\<forall>args result. minimize args = Inr result \<longrightarrow> success result
        \<longrightarrow> \<not> isnan (objective args (xvec result)))"

text \<open>
  Stand-in solvers for concrete evaluation. \<open>accept_start\<close> makes no step: it reports
  success at the starting point when that point has the length of the starting point,
  lies within the bounds and meets the constraints within \<open>1e-6\<close> (the test is
  \<open>feasible\<close>), and failure otherwise. The others answer every call with a fixed result.
\<close>

definition feasible :: "minimize_args \<Rightarrow> npfloat list \<Rightarrow> bool" where
  "feasible args v =
     (length v = length (init_guess args)
      \<and> list_all2 (\<lambda>(lo, hi) c. fle lo c \<and> fle c hi) (bounds args) v
      \<and> list_all (\<lambda>(t, c). if t = ''eq'' then fgt (Fin (1 / 10 ^ 6)) (fabs (c v))
                             else fgt (c v) (Fin (- (1 / 10 ^ 6))))
           (constraints args))"

definition accept_start :: solver where
  "accept_start args =
     Inr \<lparr>success = feasible args (init_guess args), xvec = init_guess args\<rparr>"

definition failing_solver :: solver where
  "failing_solver args = Inr \<lparr>success = False, xvec = init_guess args\<rparr>"

definition tilted_solver :: solver where
  "tilted_solver args = Inr \<lparr>success = True, xvec = [Fin (199 / 200), Fin (1 / 200)]\<rparr>"

text \<open>A returns frame of two assets over three dates, for concrete evaluation.\<close>

definition sample_returns :: dataframe where
  "sample_returns =
     \<lparr>df_index = [2, 3, 4],
      df_columns = [''A'', ''B''],
      df_values = [[Fin 0, Fin (1 / 10), Fin (1 / 5)],
                   [Fin (3 / 10), Fin (1 / 5), Fin (1 / 10)]]\<rparr>"


section \<open>Well-formed price frames\<close>

text \<open>
  A closing price is a positive number; a cell of a price frame holds a price or is
  missing. A price frame has at least one column, and every column has one cell per row
  label. \<open>fval\<close> reads the real value of a finite cell.
\<close>

fun is_price :: "npfloat \<Rightarrow> bool" where
  "is_price (Fin p) = (0 < p)"
| "is_price NaN = True"
| "is_price _ = False"

fun fval :: "npfloat \<Rightarrow> real" where
  "fval (Fin a) = a"
| "fval _ = 0"

definition price_frame :: "dataframe \<Rightarrow> bool" where
  "price_frame df =
     (df_values df \<noteq> []
      \<and> list_all (\<lambda>c. length c = length (df_index df) \<and> list_all is_price c) (df_values df))"

text \<open>
  A price frame of two assets over four dates, the second asset without a price on the
  third date.
\<close>

definition gap_prices :: dataframe where
  "gap_prices =
     \<lparr>df_index = [1, 2, 3, 4],
      df_columns = [''A'', ''B''],
      df_values = [[Fin 100, Fin 110, Fin 121, Fin (1331 / 10)],
                   [Fin 50, Fin 55, NaN, Fin 66]]\<rparr>"


section \<open>A provider for concrete evaluation\<close>

text \<open>
  A stand-in for the market-data provider: four closing prices each for \<open>A.NS\<close>,
  \<open>D.NS\<close> and \<open>E.NS\<close>, a single one for \<open>C.NS\<close>, and an empty series for every other
  symbol. The returns of \<open>D\<close> and \<open>E\<close> are those of \<open>sample_returns\<close>.
\<close>

definition sample_history :: provider where
  "sample_history symbol period =
     (if symbol = ''A.NS''
      then Inr [(1, Fin 100), (2, Fin 110), (3, Fin 132), (4, Fin (858 / 5))]
      else if symbol = ''C.NS'' then Inr [(1, Fin 100)]
      else if symbol = ''D.NS''
      then Inr [(1, Fin 100), (2, Fin 100), (3, Fin 110), (4, Fin 132)]
      else if symbol = ''E.NS''
      then Inr [(1, Fin 100), (2, Fin 130), (3, Fin 156), (4, Fin (858 / 5))]
      else Inr [])"


section \<open>Properties of the symbol normaliser\<close>

lemma endswith_iff_suffix: "endswith s suf \<longleftrightarrow> suffix suf s"
proof
  assume "endswith s suf"
  then have "s = take (length s - length suf) s @ suf"
    by (metis append_take_drop_id endswith_def)
  then show "suffix suf s"
    by (metis suffixI)
next
  assume "suffix suf s"
  then obtain p where "s = p @ suf"
    by (auto simp: suffix_def)
  then show "endswith s suf"
    by (simp add: endswith_def)
qed

lemma endswith_append_self: "endswith (s @ suf) suf"
  by (simp add: endswith_def)

text \<open>
  C8. A symbol that already ends with \<open>.NS\<close> or \<open>.BO\<close> (some prefix followed by exactly
  these characters, upper case) is returned unchanged; every other string gets \<open>.NS\<close>
  appended. The three examples of the specification are instances, and a lower-case
  suffix is not recognised.
\<close>

theorem normalize_symbol_spec:
  "normalize_symbol s =
     (if suffix ''.NS'' s \<or> suffix ''.BO'' s then s else s @ ''.NS'')
   \<and> normalize_symbol ''RELIANCE'' = ''RELIANCE.NS''
   \<and> normalize_symbol ''RELIANCE.BO'' = ''RELIANCE.BO''
   \<and> normalize_symbol ''RELIANCE.NS'' = ''RELIANCE.NS''
   \<and> normalize_symbol ''RELIANCE.ns'' = ''RELIANCE.ns.NS''"
proof -
  have general: "normalize_symbol s =
      (if suffix ''.NS'' s \<or> suffix ''.BO'' s then s else s @ ''.NS'')"
    by (simp add: normalize_symbol_def endswith_iff_suffix)
  have e1: "normalize_symbol ''RELIANCE'' = ''RELIANCE.NS''"
    by (simp add: normalize_symbol_def endswith_def)
  have e2: "normalize_symbol ''RELIANCE.BO'' = ''RELIANCE.BO''"
    by (simp add: normalize_symbol_def endswith_def)
  have e3: "normalize_symbol ''RELIANCE.NS'' = ''RELIANCE.NS''"
    by (simp add: normalize_symbol_def endswith_def)
  have e4: "normalize_symbol ''RELIANCE.ns'' = ''RELIANCE.ns.NS''"
    by (simp add: normalize_symbol_def endswith_def)
  from general e1 e2 e3 e4 show ?thesis
    by blast
qed

text \<open>
  C10. Normalising twice is the same as normalising once: an appended \<open>.NS\<close> is
  recognised by the second call, so no second suffix is ever added.
\<close>

theorem normalize_symbol_idempotent:
  "normalize_symbol (normalize_symbol s) = normalize_symbol s"
proof (cases "endswith s ''.NS'' \<or> endswith s ''.BO''")
  case True
  then show ?thesis
    by (simp add: normalize_symbol_def)
next
  case False
  then have "normalize_symbol s = s @ ''.NS''"
    by (simp add: normalize_symbol_def)
  moreover have "endswith (s @ ''.NS'') ''.NS''"
    by (rule endswith_append_self)
  ultimately show ?thesis
    by (simp add: normalize_symbol_def)
qed

section \<open>Rounding to doubles\<close>

text \<open>
  Once the binary exponent of a number is known, its double is computed by rounding the
  significand to an integer.
\<close>

lemma round_double_eval:
  assumes lo: "2 powi e \<le> \<bar>x\<bar>" and hi: "\<bar>x\<bar> < 2 powi (e + 1)" and e: "- 1022 \<le> e"
      and fin: "\<bar>real_of_int (rint (x / 2 powi (e - 52))) * 2 powi (e - 52)\<bar> < 2 ^ 1024"
  shows "round_double x = Fin (of_int (rint (x / 2 powi (e - 52))) * 2 powi (e - 52))"
proof -
  have pos: "0 < \<bar>x\<bar>"
    using lo by (smt (verit) zero_less_power_int)
  have "2 powr real_of_int e \<le> \<bar>x\<bar>" "\<bar>x\<bar> < 2 powr real_of_int (e + 1)"
    using lo hi by (simp_all only: powr_real_of_int' [of 2, simplified])
  then have "\<lfloor>log 2 \<bar>x\<bar>\<rfloor> = e"
    using pos floor_log_eq_powr_iff [of "\<bar>x\<bar>" 2 e] by simp
  then have "max \<lfloor>log 2 \<bar>x\<bar>\<rfloor> (- 1022) = e"
    using e by simp
  with pos fin show ?thesis
    by (simp add: round_double_def Let_def)
qed

text \<open>The double written \<^verbatim>\<open>0.01\<close>: it is greater than one hundredth.\<close>

lemma literal_0_01: "round_double (1 / 100) = Fin (5764607523034235 / 576460752303423488)"
  using round_double_eval [of "- 7" "1 / 100"] by (simp add: rint_def)

text \<open>
  Rounding the double \<^verbatim>\<open>0.01015\<close> to 4 decimals: the double product with \<open>10^4\<close> is
  exactly \<open>101.5\<close>, a tie, which goes to 102; the result is the double \<^verbatim>\<open>0.0102\<close>.
\<close>

lemma round_0_01015:
  "py_round (Fin (1462769158969937 / 144115188075855872)) 4 =
     Fin (734987459186865 / 72057594037927936)"
proof -
  have m: "round_double (1462769158969937 / 144115188075855872 * 10 ^ 4) = Fin (203 / 2)"
    using round_double_eval [of 6 "1462769158969937 / 144115188075855872 * 10 ^ 4"]
    by (simp add: rint_def)
  have d: "round_double (102 / 10 ^ 4) = Fin (734987459186865 / 72057594037927936)"
    using round_double_eval [of "- 7" "102 / 10 ^ 4"] by (simp add: rint_def)
  from m d show ?thesis
    by (simp add: py_round.simps rint_def)
qed

lemma round_percent_15: "py_round (Fin 15) 2 = Fin 15"
proof -
  have m: "round_double (15 * 10 ^ 2) = Fin 1500"
    using round_double_eval [of 10 "15 * 10 ^ 2"] by (simp add: rint_def)
  have d: "round_double (1500 / 10 ^ 2) = Fin 15"
    using round_double_eval [of 3 "1500 / 10 ^ 2"] by (simp add: rint_def)
  from m d show ?thesis
    by (simp add: py_round.simps rint_def)
qed

lemma round_percent_0: "py_round (Fin 0) 2 = Fin 0"
  by (simp add: py_round.simps round_double_def rint_def)

lemma round_percent_10_05:
  "py_round (Fin (201 / 20)) 2 = Fin (2828823515942093 / 281474976710656)"
proof -
  have m: "round_double (201 / 20 * 10 ^ 2) = Fin 1005"
    using round_double_eval [of 9 "201 / 20 * 10 ^ 2"] by (simp add: rint_def)
  have d: "round_double (1005 / 10 ^ 2) = Fin (2828823515942093 / 281474976710656)"
    using round_double_eval [of 3 "1005 / 10 ^ 2"] by (simp add: rint_def)
  from m d show ?thesis
    by (simp add: py_round.simps rint_def)
qed

lemma round_percent_9_9:
  "py_round (Fin (99 / 10)) 2 = Fin (5573204538870989 / 562949953421312)"
proof -
  have m: "round_double (99 / 10 * 10 ^ 2) = Fin 990"
    using round_double_eval [of 9 "99 / 10 * 10 ^ 2"] by (simp add: rint_def)
  have d: "round_double (990 / 10 ^ 2) = Fin (5573204538870989 / 562949953421312)"
    using round_double_eval [of 3 "990 / 10 ^ 2"] by (simp add: rint_def)
  from m d show ?thesis
    by (simp add: py_round.simps rint_def)
qed


section \<open>The presentation mapping\<close>

lemma fold_weight_step:
  "distinct (map fst ps) \<Longrightarrow>
   fold (\<lambda>(symbol, weight) d.
           if fgt weight c then d(symbol \<mapsto> py_round weight 4) else d) ps m k =
     (case map_of ps k of
        None \<Rightarrow> m k
      | Some w \<Rightarrow> if fgt w c then Some (py_round w 4) else m k)"
proof (induction ps arbitrary: m)
  case Nil
  then show ?case by simp
next
  case (Cons p ps)
  obtain s w where p: "p = (s, w)" by (cases p)
  from Cons.prems p have notin: "map_of ps s = None" and d: "distinct (map fst ps)"
    by (auto simp: map_of_eq_None_iff)
  show ?case
  proof (cases "k = s")
    case True
    with Cons.IH [OF d] p notin show ?thesis by simp
  next
    case False
    with Cons.IH [OF d] p show ?thesis by (auto split: option.splits)
  qed
qed

lemma weight_dict_lookup:
  assumes "distinct cols"
  shows "weight_dict cols ws k =
     (case map_of (zip cols ws) k of
        None \<Rightarrow> None
      | Some w \<Rightarrow> if fgt w (round_double (1 / 100)) then Some (py_round w 4) else None)"
proof -
  have "distinct (map fst (zip cols ws))"
    using assms by (simp add: map_fst_zip_take)
  then show ?thesis
    unfolding weight_dict_def by (simp add: fold_weight_step)
qed

lemma map_of_zip_nth_iff:
  assumes "distinct cols" and "length ws = length cols"
  shows "map_of (zip cols ws) k = Some w \<longleftrightarrow> (\<exists>i<length cols. cols ! i = k \<and> ws ! i = w)"
proof
  assume "map_of (zip cols ws) k = Some w"
  then have "(k, w) \<in> set (zip cols ws)"
    by (rule map_of_SomeD)
  then show "\<exists>i<length cols. cols ! i = k \<and> ws ! i = w"
    using assms(2) by (auto simp: set_zip)
next
  assume "\<exists>i<length cols. cols ! i = k \<and> ws ! i = w"
  then obtain i where i: "i < length cols" "cols ! i = k" "ws ! i = w"
    by blast
  have "map_of (zip cols ws) (cols ! i) = Some (ws ! i)"
    using assms i(1) by (simp add: map_of_zip_nth)
  with i show "map_of (zip cols ws) k = Some w"
    by simp
qed

text \<open>
  C3 (as amended). For distinct column names, the presentation mapping holds a symbol
  exactly when its weight in the full vector is strictly greater than the double
  \<^verbatim>\<open>0.01\<close>, and the value stored is that weight rounded to 4 decimal places as numpy
  rounds: nothing is rescaled, so the stored values need not sum to 1. A weight equal
  to the double \<^verbatim>\<open>0.01\<close> is left out.
\<close>

theorem weight_dict_strict_threshold:
  assumes "distinct cols" and "length ws = length cols"
  shows "weight_dict cols ws k = Some v \<longleftrightarrow>
           (\<exists>i<length cols. cols ! i = k \<and> fgt (ws ! i) (round_double (1 / 100))
                              \<and> v = py_round (ws ! i) 4)"
proof (cases "map_of (zip cols ws) k")
  case None
  have "\<not> (\<exists>i<length cols. cols ! i = k \<and> ws ! i = w)" for w
    using None map_of_zip_nth_iff [OF assms, of k w] by simp
  then show ?thesis
    using None assms(1) by (auto simp: weight_dict_lookup)
next
  case (Some w)
  then obtain i where i: "i < length cols" "cols ! i = k" "ws ! i = w"
    using map_of_zip_nth_iff [OF assms, of k w] by blast
  have uniq: "j = i" if "j < length cols" "cols ! j = k" for j
    using that i assms(1) by (metis nth_eq_iff_index_eq)
  show ?thesis
  proof
    assume "weight_dict cols ws k = Some v"
    with Some assms(1) have "fgt w (round_double (1 / 100)) \<and> v = py_round w 4"
      by (auto simp: weight_dict_lookup split: if_splits)
    with i show "\<exists>i<length cols. cols ! i = k \<and> fgt (ws ! i) (round_double (1 / 100))
                   \<and> v = py_round (ws ! i) 4"
      by blast
  next
    assume "\<exists>i<length cols. cols ! i = k \<and> fgt (ws ! i) (round_double (1 / 100))
              \<and> v = py_round (ws ! i) 4"
    then obtain j where j: "j < length cols" "cols ! j = k"
        "fgt (ws ! j) (round_double (1 / 100))" "v = py_round (ws ! j) 4"
      by blast
    from uniq [OF j(1,2)] j i have "fgt w (round_double (1 / 100))" "v = py_round w 4"
      by simp_all
    with Some assms(1) show "weight_dict cols ws k = Some v"
      by (simp add: weight_dict_lookup)
  qed
qed

text \<open>
  A vector of three doubles, \<^verbatim>\<open>0.01015\<close>, \<^verbatim>\<open>0.01\<close> and \<^verbatim>\<open>0.97985\<close>: the first is kept
  and stored as the double \<^verbatim>\<open>0.0102\<close>.
\<close>

theorem weight_dict_strict_threshold_witness:
  "distinct [''A'', ''B'', ''C'']
   \<and> length [Fin (1462769158969937 / 144115188075855872),
              Fin (5764607523034235 / 576460752303423488),
              Fin (8825704189757961 / 9007199254740992)] = length [''A'', ''B'', ''C'']
   \<and> weight_dict [''A'', ''B'', ''C'']
        [Fin (1462769158969937 / 144115188075855872),
         Fin (5764607523034235 / 576460752303423488),
         Fin (8825704189757961 / 9007199254740992)] ''A'' =
       Some (Fin (734987459186865 / 72057594037927936))
   \<and> (\<exists>i<length [''A'', ''B'', ''C''].
          [''A'', ''B'', ''C''] ! i = ''A''
          \<and> fgt ([Fin (1462769158969937 / 144115188075855872),
                   Fin (5764607523034235 / 576460752303423488),
                   Fin (8825704189757961 / 9007199254740992)] ! i) (round_double (1 / 100))
          \<and> Fin (734987459186865 / 72057594037927936) =
              py_round ([Fin (1462769158969937 / 144115188075855872),
                         Fin (5764607523034235 / 576460752303423488),
                         Fin (8825704189757961 / 9007199254740992)] ! i) 4)"
proof -
  let ?ws = "[Fin (1462769158969937 / 144115188075855872),
              Fin (5764607523034235 / 576460752303423488),
              Fin (8825704189757961 / 9007199254740992)]"
  have d: "distinct [''A'', ''B'', ''C'']"
    by simp
  have l: "length ?ws = length [''A'', ''B'', ''C'']"
    by simp
  have "\<exists>i<length [''A'', ''B'', ''C''].
          [''A'', ''B'', ''C''] ! i = ''A''
          \<and> fgt (?ws ! i) (round_double (1 / 100))
          \<and> Fin (734987459186865 / 72057594037927936) = py_round (?ws ! i) 4"
    by (rule exI [of _ 0]) (simp add: literal_0_01 round_0_01015)
  with weight_dict_strict_threshold
         [OF d l, of "''A''" "Fin (734987459186865 / 72057594037927936)"] d l
  show ?thesis
    by blast
qed

text \<open>
  A test \<^verbatim>\<open>weight >= 0.01\<close> would keep a weight equal to the double \<^verbatim>\<open>0.01\<close>, which
  is also not below one hundredth as a real number; the source's test is
  \<^verbatim>\<open>weight > 0.01\<close>, which drops it. The other weight is the double \<^verbatim>\<open>0.99\<close>.
\<close>

theorem weight_at_threshold_counterexample:
  "fle (round_double (1 / 100)) (Fin (5764607523034235 / 576460752303423488))
   \<and> fle (Fin (1 / 100)) (Fin (5764607523034235 / 576460752303423488))
   \<and> weight_dict [''A'', ''B'']
        [Fin (4458563631096791 / 4503599627370496),
         Fin (5764607523034235 / 576460752303423488)] ''B'' = None"
  by (simp add: weight_dict_def literal_0_01)


section \<open>The optimizer's outcome\<close>

lemma optimize_portfolio_cases:
  "optimize_portfolio minimize returns =
     (if df_values returns = [] then Inl ''float division by zero''
      else case minimize (optimizer_call returns) of
             Inl e \<Rightarrow> Inl e
           | Inr result \<Rightarrow>
               if \<not> success result then Inl ''Optimization failed''
               else if length (xvec result) \<noteq> length (df_values returns)
                    then Inl (shapes_error (length (xvec result)) (length (df_values returns)))
               else Inr \<lparr>weights = weight_dict (df_columns returns) (xvec result),
                         expected_return =
                           py_round (fmul (np_dot (xvec result) (map pd_mean (df_values returns)))
                                          (Fin 100)) 2,
                         expected_volatility =
                           py_round (fmul (fsqrt (np_dot (xvec result)
                                             (np_matvec (pd_cov (df_values returns)) (xvec result))))
                                          (Fin 100)) 2\<rparr>)"
  by (simp add: optimize_portfolio_def optimizer_call_def Let_def split: sum.splits)

lemma optimize_portfolio_InrD:
  assumes "optimize_portfolio minimize returns = Inr a"
  obtains result where "minimize (optimizer_call returns) = Inr result" "success result"
    "length (xvec result) = length (df_values returns)" "df_values returns \<noteq> []"
    "a = \<lparr>weights = weight_dict (df_columns returns) (xvec result),
          expected_return =
            py_round (fmul (np_dot (xvec result) (map pd_mean (df_values returns))) (Fin 100)) 2,
          expected_volatility =
            py_round (fmul (fsqrt (np_dot (xvec result)
                              (np_matvec (pd_cov (df_values returns)) (xvec result))))
                           (Fin 100)) 2\<rparr>"
  using assms unfolding optimize_portfolio_cases
  by (auto split: if_splits sum.splits)

subsection \<open>Concrete runs\<close>

lemma sample_mean:
  "map pd_mean (df_values sample_returns) = [Fin (1 / 10), Fin (1 / 5)]"
  by (simp add: sample_returns_def pd_mean_def)

lemma sample_cov:
  "pd_cov (df_values sample_returns) =
     [[Fin (1 / 100), Fin (- (1 / 100))], [Fin (- (1 / 100)), Fin (1 / 100)]]"
  by (simp add: sample_returns_def pd_cov_def pd_cov_pair_def fsub_def)

lemma sample_call:
  "optimizer_call sample_returns =
     solver_call [Fin (1 / 10), Fin (1 / 5)]
       [[Fin (1 / 100), Fin (- (1 / 100))], [Fin (- (1 / 100)), Fin (1 / 100)]]"
  by (simp add: optimizer_call_def sample_mean sample_cov)

lemma sample_start_feasible:
  "feasible (optimizer_call sample_returns) (init_guess (optimizer_call sample_returns))"
  by (simp add: sample_call solver_call_def feasible_def fsub_def)

lemma sample_accept_start:
  "accept_start (optimizer_call sample_returns) =
     Inr \<lparr>success = True, xvec = [Fin (1 / 2), Fin (1 / 2)]\<rparr>"
  using sample_start_feasible
  by (simp add: accept_start_def) (simp add: sample_call solver_call_def)

lemma sample_accept_start_run:
  "optimize_portfolio accept_start sample_returns =
     Inr \<lparr>weights = weight_dict [''A'', ''B''] [Fin (1 / 2), Fin (1 / 2)],
          expected_return = Fin 15,
          expected_volatility = Fin 0\<rparr>"
  unfolding optimize_portfolio_cases sample_accept_start sample_mean sample_cov
  by (simp add: sample_returns_def np_dot_def np_matvec_def round_percent_15 round_percent_0)

lemma sqrt_9801: "sqrt (9801 / 1000000) = 99 / 1000"
  by (rule real_sqrt_unique) (simp_all add: power2_eq_square)

lemma sample_tilted_run:
  "optimize_portfolio tilted_solver sample_returns =
     Inr \<lparr>weights = weight_dict [''A'', ''B''] [Fin (199 / 200), Fin (1 / 200)],
          expected_return = Fin (2828823515942093 / 281474976710656),
          expected_volatility = Fin (5573204538870989 / 562949953421312)\<rparr>"
  unfolding optimize_portfolio_cases sample_mean sample_cov
  apply (simp add: tilted_solver_def sample_returns_def np_dot_def np_matvec_def)
  apply (simp add: sqrt_9801 round_percent_10_05 round_percent_9_9)
  done

subsection \<open>Failure follows the solver's flag\<close>

text \<open>
  C6. Whenever the solver answers with \<open>success = False\<close>, whatever the reason,
  \<open>optimize_portfolio\<close> raises \<^verbatim>\<open>ValueError("Optimization failed")\<close> and returns no
  allocation at all; and an allocation is returned only when the solver answered with
  \<open>success = True\<close>.
\<close>

theorem optimizer_fails_iff_solver_flag:
  "(df_values returns \<noteq> [] \<and> minimize (optimizer_call returns) = Inr result
      \<and> \<not> success result
      \<longrightarrow> optimize_portfolio minimize returns = Inl ''Optimization failed'')
   \<and> (optimize_portfolio minimize returns = Inr a
      \<longrightarrow> (\<exists>r. minimize (optimizer_call returns) = Inr r \<and> success r))"
proof (intro conjI impI)
  assume "df_values returns \<noteq> [] \<and> minimize (optimizer_call returns) = Inr result
      \<and> \<not> success result"
  then show "optimize_portfolio minimize returns = Inl ''Optimization failed''"
    by (simp add: optimize_portfolio_cases)
next
  assume "optimize_portfolio minimize returns = Inr a"
  then show "\<exists>r. minimize (optimizer_call returns) = Inr r \<and> success r"
    by (auto elim: optimize_portfolio_InrD)
qed

theorem optimizer_fails_iff_solver_flag_witness:
  "df_values sample_returns \<noteq> []
   \<and> failing_solver (optimizer_call sample_returns) =
       Inr \<lparr>success = False, xvec = [Fin (1 / 2), Fin (1 / 2)]\<rparr>
   \<and> optimize_portfolio failing_solver sample_returns = Inl ''Optimization failed''
   \<and> optimize_portfolio accept_start sample_returns =
       Inr \<lparr>weights = weight_dict [''A'', ''B''] [Fin (1 / 2), Fin (1 / 2)],
            expected_return = Fin 15,
            expected_volatility = Fin 0\<rparr>
   \<and> (\<exists>r. accept_start (optimizer_call sample_returns) = Inr r \<and> success r)"
proof -
  have ne: "df_values sample_returns \<noteq> []"
    by (simp add: sample_returns_def)
  have f: "failing_solver (optimizer_call sample_returns) =
       Inr \<lparr>success = False, xvec = [Fin (1 / 2), Fin (1 / 2)]\<rparr>"
    by (simp add: failing_solver_def sample_call solver_call_def)
  have nf: "\<not> success \<lparr>success = False, xvec = [Fin (1 / 2), Fin (1 / 2)]\<rparr>"
    by simp
  from optimizer_fails_iff_solver_flag
         [of sample_returns failing_solver
             "\<lparr>success = False, xvec = [Fin (1 / 2), Fin (1 / 2)]\<rparr>"]
       ne f nf
  have failed: "optimize_portfolio failing_solver sample_returns = Inl ''Optimization failed''"
    by blast
  from optimizer_fails_iff_solver_flag [of sample_returns accept_start] sample_accept_start_run
  have "\<exists>r. accept_start (optimizer_call sample_returns) = Inr r \<and> success r"
    by blast
  with ne f failed sample_accept_start_run show ?thesis
    by blast
qed

subsection \<open>Sums of finite numbers\<close>

lemma fsum_Fin: "fsum (map Fin xs) = Fin (sum_list xs)"
  by (induction xs) simp_all

lemma map2_fmul_Fin: "map2 fmul (map Fin a) (map Fin b) = map Fin (map2 (*) a b)"
  by (induction a arbitrary: b) (auto simp: zip_Cons1 split: list.splits)

lemma np_dot_Fin: "np_dot (map Fin a) (map Fin b) = Fin (sum_list (map2 (*) a b))"
  unfolding np_dot_def map2_fmul_Fin by (rule fsum_Fin)

lemma sum_list_map2_nth:
  "length a = length b \<Longrightarrow>
   sum_list (map2 (*) a b) = (\<Sum>i<length a. a ! i * b ! i :: real)"
proof -
  assume l: "length a = length b"
  have "sum_list (map2 (*) a b) = (\<Sum>i = 0..<length (map2 (*) a b). map2 (*) a b ! i)"
    by (rule sum_list_sum_nth)
  also have "\<dots> = (\<Sum>i = 0..<length a. a ! i * b ! i)"
    using l by (intro sum.cong) auto
  finally show ?thesis
    by (simp add: atLeast0LessThan)
qed

lemma np_matvec_Fin:
  "np_matvec (map (map Fin) sg) (map Fin w) =
     map Fin (map (\<lambda>row. sum_list (map2 (*) row w)) sg)"
  by (simp add: np_matvec_def np_dot_Fin)

subsection \<open>Expected return and volatility\<close>

lemma quadratic_form_nth:
  assumes "length sg = length w" and "\<forall>row\<in>set sg. length row = length w"
  shows "sum_list (map2 (*) w (map (\<lambda>row. sum_list (map2 (*) row w)) sg)) =
           (\<Sum>i<length w. \<Sum>j<length w. w ! i * sg ! i ! j * w ! j :: real)"
proof -
  have "sum_list (map2 (*) w (map (\<lambda>row. sum_list (map2 (*) row w)) sg)) =
          (\<Sum>i<length w. w ! i * map (\<lambda>row. sum_list (map2 (*) row w)) sg ! i)"
    using assms(1) by (simp add: sum_list_map2_nth)
  also have "\<dots> = (\<Sum>i<length w. w ! i * (\<Sum>j<length w. sg ! i ! j * w ! j))"
  proof (rule sum.cong)
    fix i assume "i \<in> {..<length w}"
    then have i: "i < length sg"
      using assms(1) by simp
    then have "length (sg ! i) = length w"
      using assms(2) by simp
    then have "sum_list (map2 (*) (sg ! i) w) = (\<Sum>j<length w. sg ! i ! j * w ! j)"
      using sum_list_map2_nth [of "sg ! i" w] by simp
    with i show "w ! i * map (\<lambda>row. sum_list (map2 (*) row w)) sg ! i =
                 w ! i * (\<Sum>j<length w. sg ! i ! j * w ! j)"
      by simp
  qed simp
  also have "\<dots> = (\<Sum>i<length w. \<Sum>j<length w. w ! i * sg ! i ! j * w ! j)"
    by (intro sum.cong refl) (simp add: sum_distrib_left mult.assoc)
  finally show ?thesis .
qed

lemma pd_cov_square:
  assumes "pd_cov cols = map (map Fin) sg"
  shows "length sg = length cols \<and> (\<forall>row\<in>set sg. length row = length cols)"
proof -
  have len: "length sg = length cols"
    using arg_cong [OF assms, of length] by (simp add: pd_cov_def)
  have "\<forall>r\<in>set (pd_cov cols). length r = length cols"
    by (auto simp: pd_cov_def)
  then have "\<forall>r\<in>set (map (map Fin) sg). length r = length cols"
    using assms by simp
  then have "\<forall>row\<in>set sg. length row = length cols"
    by simp
  with len show ?thesis
    by simp
qed

text \<open>
  C1. On success the two scalars are computed from the solver's full vector \<open>w\<close>, never
  from the filtered mapping: the expected return is \<open>w\<^sup>T\<mu>\<close> and the expected volatility
  is \<open>sqrt(w\<^sup>T\<Sigma>w)\<close>, with \<open>\<mu>\<close> the column means and \<open>\<Sigma>\<close> the sample covariance of the
  frame; the result carries them as percentages rounded to 2 decimals. Written with
  sums over all assets when the numbers are finite.
\<close>

theorem expected_scalars_from_full_vector:
  assumes "optimize_portfolio minimize returns = Inr a"
  shows "\<exists>result. minimize (optimizer_call returns) = Inr result \<and> success result
     \<and> expected_return a =
         py_round (fmul (np_dot (xvec result) (map pd_mean (df_values returns))) (Fin 100)) 2
     \<and> expected_volatility a =
         py_round (fmul (fsqrt (np_dot (xvec result)
                           (np_matvec (pd_cov (df_values returns)) (xvec result))))
                        (Fin 100)) 2
     \<and> (\<forall>w mu sg.
           xvec result = map Fin w \<and> map pd_mean (df_values returns) = map Fin mu
           \<and> pd_cov (df_values returns) = map (map Fin) sg
           \<longrightarrow> expected_return a = py_round (Fin ((\<Sum>i<length w. w ! i * mu ! i) * 100)) 2
             \<and> expected_volatility a =
                 (if 0 \<le> (\<Sum>i<length w. \<Sum>j<length w. w ! i * sg ! i ! j * w ! j)
                  then py_round
                         (Fin (sqrt (\<Sum>i<length w. \<Sum>j<length w. w ! i * sg ! i ! j * w ! j)
                               * 100)) 2
                  else NaN))"
proof -
  from assms obtain result where
    r: "minimize (optimizer_call returns) = Inr result" "success result"
       "length (xvec result) = length (df_values returns)"
    and a: "a = \<lparr>weights = weight_dict (df_columns returns) (xvec result),
          expected_return =
            py_round (fmul (np_dot (xvec result) (map pd_mean (df_values returns))) (Fin 100)) 2,
          expected_volatility =
            py_round (fmul (fsqrt (np_dot (xvec result)
                              (np_matvec (pd_cov (df_values returns)) (xvec result))))
                           (Fin 100)) 2\<rparr>"
    by (auto elim: optimize_portfolio_InrD)
  have fin: "expected_return a = py_round (Fin ((\<Sum>i<length w. w ! i * mu ! i) * 100)) 2
             \<and> expected_volatility a =
                 (if 0 \<le> (\<Sum>i<length w. \<Sum>j<length w. w ! i * sg ! i ! j * w ! j)
                  then py_round
                         (Fin (sqrt (\<Sum>i<length w. \<Sum>j<length w. w ! i * sg ! i ! j * w ! j)
                               * 100)) 2
                  else NaN)"
    if w: "xvec result = map Fin w" and mu: "map pd_mean (df_values returns) = map Fin mu"
      and sg: "pd_cov (df_values returns) = map (map Fin) sg" for w mu sg
  proof -
    have lw: "length w = length (df_values returns)"
      using r(3) w by simp
    have lmu: "length mu = length w"
      using arg_cong [OF mu, of length] lw by simp
    from pd_cov_square [OF sg] lw
    have sq: "length sg = length w" "\<forall>row\<in>set sg. length row = length w"
      by simp_all
    have er: "np_dot (xvec result) (map pd_mean (df_values returns)) =
                Fin (\<Sum>i<length w. w ! i * mu ! i)"
      using lmu by (simp add: w mu np_dot_Fin sum_list_map2_nth)
    have q: "np_dot (xvec result) (np_matvec (pd_cov (df_values returns)) (xvec result)) =
               Fin (\<Sum>i<length w. \<Sum>j<length w. w ! i * sg ! i ! j * w ! j)"
      unfolding w sg np_matvec_Fin np_dot_Fin
      using quadratic_form_nth [OF sq] by simp
    show ?thesis
      by (simp add: a er q)
  qed
  from r a fin show ?thesis
    by (intro exI [of _ result]) simp
qed

theorem expected_scalars_from_full_vector_witness:
  "optimize_portfolio tilted_solver sample_returns =
     Inr \<lparr>weights = weight_dict [''A'', ''B''] [Fin (199 / 200), Fin (1 / 200)],
          expected_return = Fin (2828823515942093 / 281474976710656),
          expected_volatility = Fin (5573204538870989 / 562949953421312)\<rparr>
   \<and> weight_dict [''A'', ''B''] [Fin (199 / 200), Fin (1 / 200)] ''B'' = None
   \<and> Fin (2828823515942093 / 281474976710656) =
       py_round (Fin ((\<Sum>i<length [199 / 200, 1 / 200 :: real].
                         [199 / 200, 1 / 200] ! i * [1 / 10, 1 / 5] ! i) * 100)) 2
   \<and> Fin (5573204538870989 / 562949953421312) =
       py_round (Fin (sqrt (\<Sum>i<length [199 / 200, 1 / 200 :: real].
                            \<Sum>j<length [199 / 200, 1 / 200 :: real].
                              [199 / 200, 1 / 200] ! i
                              * [[1 / 100, - (1 / 100)], [- (1 / 100), 1 / 100]] ! i ! j
                              * [199 / 200, 1 / 200] ! j) * 100)) 2"
proof -
  let ?w = "[199 / 200, 1 / 200 :: real]"
  let ?mu = "[1 / 10, 1 / 5 :: real]"
  let ?sg = "[[1 / 100, - (1 / 100)], [- (1 / 100), 1 / 100 :: real]]"
  let ?a = "\<lparr>weights = weight_dict [''A'', ''B''] [Fin (199 / 200), Fin (1 / 200)],
             expected_return = Fin (2828823515942093 / 281474976710656),
             expected_volatility = Fin (5573204538870989 / 562949953421312)\<rparr>"
  let ?q = "\<Sum>i<length ?w. \<Sum>j<length ?w. ?w ! i * ?sg ! i ! j * ?w ! j"
  from expected_scalars_from_full_vector [OF sample_tilted_run]
  obtain result where r: "tilted_solver (optimizer_call sample_returns) = Inr result"
    and fin: "\<forall>w mu sg.
           xvec result = map Fin w \<and> map pd_mean (df_values sample_returns) = map Fin mu
           \<and> pd_cov (df_values sample_returns) = map (map Fin) sg
           \<longrightarrow> expected_return ?a = py_round (Fin ((\<Sum>i<length w. w ! i * mu ! i) * 100)) 2
             \<and> expected_volatility ?a =
                 (if 0 \<le> (\<Sum>i<length w. \<Sum>j<length w. w ! i * sg ! i ! j * w ! j)
                  then py_round
                         (Fin (sqrt (\<Sum>i<length w. \<Sum>j<length w. w ! i * sg ! i ! j * w ! j)
                               * 100)) 2
                  else NaN)"
    by blast
  from r have x: "xvec result = map Fin ?w"
    by (auto simp: tilted_solver_def)
  have mu: "map pd_mean (df_values sample_returns) = map Fin ?mu"
    by (simp add: sample_mean)
  have sg: "pd_cov (df_values sample_returns) = map (map Fin) ?sg"
    by (simp add: sample_cov)
  from fin x mu sg
  have both: "expected_return ?a = py_round (Fin ((\<Sum>i<length ?w. ?w ! i * ?mu ! i) * 100)) 2
     \<and> expected_volatility ?a =
         (if 0 \<le> ?q then py_round (Fin (sqrt ?q * 100)) 2 else NaN)"
    by blast
  have q: "0 \<le> ?q"
    by (simp add: lessThan_Suc)
  have dropped: "weight_dict [''A'', ''B''] [Fin (199 / 200), Fin (1 / 200)] ''B'' = None"
    by (simp add: weight_dict_def literal_0_01)
  from both q dropped sample_tilted_run show ?thesis
    by simp
qed

section \<open>The returns frame\<close>

lemma length_ffill_from [simp]: "length (ffill_from prev c) = length c"
  by (induction c arbitrary: prev) (simp_all add: Let_def)

lemma length_filled [simp]: "length (filled fm c) = length c"
  by (cases fm) (simp_all add: filled_def ffill_def)

lemma length_shift1 [simp]: "length (shift1 c) = length c"
  by (cases c rule: rev_cases) (simp_all add: shift1_def)

lemma length_pct_change_col [simp]: "length (pct_change_col fm c) = length c"
  by (simp add: pct_change_col_def Let_def)

lemma shift1_nth: "t < length c \<Longrightarrow> shift1 c ! t = (if t = 0 then NaN else c ! (t - 1))"
  by (cases t) (auto simp: shift1_def nth_butlast)

lemma pct_change_col_nth:
  assumes "t < length c"
  shows "pct_change_col fm c ! t =
           (if t = 0 then NaN
            else fsub (fdiv (filled fm c ! t) (filled fm c ! (t - 1))) (Fin 1))"
proof -
  have "pct_change_col fm c ! t =
          fsub (fdiv (filled fm c ! t) (shift1 (filled fm c) ! t)) (Fin 1)"
    using assms by (simp add: pct_change_col_def Let_def)
  also have "shift1 (filled fm c) ! t = (if t = 0 then NaN else filled fm c ! (t - 1))"
    using assms by (simp add: shift1_nth)
  finally show ?thesis
    by (cases "filled fm c ! t") (simp_all add: fsub_def)
qed

lemma ffill_from_is_price:
  "is_price prev \<Longrightarrow> list_all is_price c \<Longrightarrow> list_all is_price (ffill_from prev c)"
  by (induction c arbitrary: prev) (simp_all add: Let_def)

lemma filled_is_price: "list_all is_price c \<Longrightarrow> list_all is_price (filled fm c)"
  by (cases fm) (simp_all add: filled_def ffill_def ffill_from_is_price)

lemma pct_cell:
  assumes "is_price a" and "is_price b"
  shows "\<not> isnan (fsub (fdiv a b) (Fin 1)) \<longleftrightarrow> \<not> isnan a \<and> \<not> isnan b"
    and "\<not> isnan a \<Longrightarrow> \<not> isnan b \<Longrightarrow>
         fsub (fdiv a b) (Fin 1) = Fin (fval a / fval b - 1)"
  using assms by (cases a; cases b; simp add: fsub_def)+

lemma row_mask_length:
  "\<forall>c\<in>set cols. length c = n \<Longrightarrow> length (row_mask n cols) = n"
  by (induction cols) (simp_all add: row_mask_def)

lemma row_mask_nth:
  "\<forall>c\<in>set cols. length c = n \<Longrightarrow> t < n \<Longrightarrow>
   row_mask n cols ! t \<longleftrightarrow> (\<forall>c\<in>set cols. \<not> isnan (c ! t))"
proof (induction cols)
  case Nil
  then show ?case by (simp add: row_mask_def)
next
  case (Cons c cols)
  then have len: "length (row_mask n cols) = n" "length c = n"
    by (simp_all add: row_mask_length)
  have "row_mask n (c # cols) = map2 (\<lambda>v keep. \<not> isnan v \<and> keep) c (row_mask n cols)"
    by (simp add: row_mask_def)
  with len Cons show ?case
    by simp
qed

lemma select_rows_Cons:
  "select_rows (b # m) (v # vs) = (if b then [v] else []) @ select_rows m vs"
  by (simp add: select_rows_def)

lemma filter_nth_Cons_Suc:
  "filter ((!) (b # m)) (map Suc is) = map Suc (filter ((!) m) is)"
  by (induction "is") simp_all

lemma map_nth_Cons_Suc: "map ((!) (v # vs)) (map Suc is) = map ((!) vs) is"
  by (induction "is") simp_all

lemma select_rows_nth_filter:
  "length m = length vs \<Longrightarrow>
   select_rows m vs = map ((!) vs) (filter ((!) m) [0..<length vs])"
proof (induction vs arbitrary: m)
  case Nil
  then show ?case by (simp add: select_rows_def)
next
  case (Cons v vs)
  then obtain b m' where m: "m = b # m'" and l: "length m' = length vs"
    by (cases m) auto
  have upt: "[0..<length (v # vs)] = 0 # map Suc [0..<length vs]"
    by (simp add: upt_conv_Cons map_Suc_upt del: upt_Suc)
  have "map ((!) (v # vs)) (filter ((!) (b # m')) (0 # map Suc [0..<length vs])) =
          (if b then [v] else []) @ map ((!) vs) (filter ((!) m') [0..<length vs])"
    by (simp add: filter_nth_Cons_Suc map_nth_Cons_Suc)
  with Cons.IH [OF l] m show ?case
    unfolding upt by (simp add: select_rows_Cons)
qed

lemma filter_drop_first:
  "filter (\<lambda>t. t \<noteq> 0 \<and> R t) [0..<n] = filter R [1..<n]"
proof (cases n)
  case 0
  then show ?thesis by simp
next
  case (Suc k)
  have "[0..<n] = 0 # [1..<n]"
    using Suc by (simp add: upt_conv_Cons del: upt_Suc)
  moreover have "filter (\<lambda>t. t \<noteq> 0 \<and> R t) [1..<n] = filter R [1..<n]"
    by (rule filter_cong) auto
  ultimately show ?thesis
    by simp
qed

lemma price_frameD:
  assumes "price_frame df"
  shows "df_values df \<noteq> []"
    and "c \<in> set (df_values df) \<Longrightarrow> length c = length (df_index df)"
    and "c \<in> set (df_values df) \<Longrightarrow> t < length (df_index df) \<Longrightarrow> is_price (filled fm c ! t)"
proof -
  show "df_values df \<noteq> []"
    using assms by (simp add: price_frame_def)
  show len: "length c = length (df_index df)" if "c \<in> set (df_values df)"
    using assms that by (auto simp: price_frame_def list_all_iff)
  show "is_price (filled fm c ! t)" if "c \<in> set (df_values df)" "t < length (df_index df)"
  proof -
    have "list_all is_price c"
      using assms that(1) by (auto simp: price_frame_def list_all_iff)
    then have "list_all is_price (filled fm c)"
      by (rule filled_is_price)
    with that len [OF that(1)] show ?thesis
      by (simp add: list_all_length)
  qed
qed

lemma returns_mask_nth:
  assumes pf: "price_frame prices" and t: "t < length (df_index prices)"
  shows "row_mask (length (df_index prices)) (map (pct_change_col fm) (df_values prices)) ! t
         \<longleftrightarrow> t \<noteq> 0 \<and> (\<forall>d\<in>set (map (filled fm) (df_values prices)).
                          \<not> isnan (d ! t) \<and> \<not> isnan (d ! (t - 1)))"
proof -
  let ?n = "length (df_index prices)"
  let ?vals = "df_values prices"
  have lens: "\<forall>c\<in>set (map (pct_change_col fm) ?vals). length c = ?n"
    using price_frameD(2) [OF pf] by simp
  have "row_mask ?n (map (pct_change_col fm) ?vals) ! t
          \<longleftrightarrow> (\<forall>c\<in>set ?vals. \<not> isnan (pct_change_col fm c ! t))"
    using row_mask_nth [OF lens t] by simp
  also have "\<dots> \<longleftrightarrow> t \<noteq> 0 \<and> (\<forall>c\<in>set ?vals. \<not> isnan (filled fm c ! t)
                                     \<and> \<not> isnan (filled fm c ! (t - 1)))"
  proof (cases "t = 0")
    case True
    obtain c where c: "c \<in> set ?vals"
      using price_frameD(1) [OF pf] by (cases ?vals) auto
    then have "isnan (pct_change_col fm c ! t)"
      using True t price_frameD(2) [OF pf] by (simp add: pct_change_col_nth)
    with c have "\<not> (\<forall>c\<in>set ?vals. \<not> isnan (pct_change_col fm c ! t))"
      by blast
    with True show ?thesis
      by simp
  next
    case False
    have "\<not> isnan (pct_change_col fm c ! t)
            \<longleftrightarrow> \<not> isnan (filled fm c ! t) \<and> \<not> isnan (filled fm c ! (t - 1))"
      if c: "c \<in> set ?vals" for c
    proof -
      have "is_price (filled fm c ! t)" "is_price (filled fm c ! (t - 1))"
        using price_frameD(3) [OF pf c] t by simp_all
      then show ?thesis
        using False t price_frameD(2) [OF pf c] by (simp add: pct_change_col_nth pct_cell(1))
    qed
    with False show ?thesis
      by simp
  qed
  finally show ?thesis
    by simp
qed

text \<open>Forward filling puts the last value observed so far into every missing cell.\<close>

lemma ffill_from_nth:
  "t < length c \<Longrightarrow>
   ffill_from prev c ! t =
     (case filter (\<lambda>v. \<not> isnan v) (take (Suc t) c) of [] \<Rightarrow> prev | vs \<Rightarrow> last vs)"
proof (induction c arbitrary: prev t)
  case Nil
  then show ?case by simp
next
  case (Cons v c)
  show ?case
  proof (cases t)
    case 0
    then show ?thesis by (simp add: Let_def)
  next
    case (Suc k)
    with Cons.prems have k: "k < length c"
      by simp
    show ?thesis
      using Suc Cons.IH [OF k]
      by (simp add: Let_def split: list.splits)
  qed
qed

lemma ffill_nth:
  "t < length c \<Longrightarrow>
   ffill c ! t =
     (case filter (\<lambda>v. \<not> isnan v) (take (Suc t) c) of [] \<Rightarrow> NaN | vs \<Rightarrow> last vs)"
  by (simp add: ffill_def ffill_from_nth)

lemma gap_prices_frame: "price_frame gap_prices"
  by (simp add: price_frame_def gap_prices_def)

text \<open>
  C2 (as amended). For a price frame, the returns frame has one row for each date other
  than the first at which every asset has a price both on that date and on the date
  before it in the frame, and the cell of an asset there is the price on the date
  divided by the price on the date before, minus 1. The prices meant are the frame's
  own when \<open>pct_change\<close> fills nothing (pandas 3), and the forward-filled ones (the last
  price observed so far) under the default of earlier pandas versions. The column names
  are kept.
\<close>

theorem calculate_returns_rows:
  assumes "price_frame prices"
  shows "let D = map (filled fm) (df_values prices);
             kept = filter (\<lambda>t. \<forall>d\<in>set D. \<not> isnan (d ! t) \<and> \<not> isnan (d ! (t - 1)))
                      [1..<length (df_index prices)]
         in calculate_returns fm prices =
              \<lparr>df_index = map ((!) (df_index prices)) kept,
               df_columns = df_columns prices,
               df_values =
                 map (\<lambda>d. map (\<lambda>t. Fin (fval (d ! t) / fval (d ! (t - 1)) - 1)) kept) D\<rparr>"
proof -
  let ?n = "length (df_index prices)"
  let ?vals = "df_values prices"
  let ?D = "map (filled fm) ?vals"
  let ?R = "\<lambda>t. \<forall>d\<in>set ?D. \<not> isnan (d ! t) \<and> \<not> isnan (d ! (t - 1))"
  let ?kept = "filter ?R [1..<?n]"
  let ?mask = "row_mask ?n (map (pct_change_col fm) ?vals)"
  have lens: "\<forall>c\<in>set (map (pct_change_col fm) ?vals). length c = ?n"
    using price_frameD(2) [OF assms] by simp
  have mlen: "length ?mask = ?n"
    by (rule row_mask_length [OF lens])
  have "filter ((!) ?mask) [0..<?n] = filter (\<lambda>t. t \<noteq> 0 \<and> ?R t) [0..<?n]"
    by (rule filter_cong) (simp_all add: returns_mask_nth [OF assms])
  then have kept: "filter ((!) ?mask) [0..<?n] = ?kept"
    by (simp only: filter_drop_first)
  have idx: "select_rows ?mask (df_index prices) = map ((!) (df_index prices)) ?kept"
    using select_rows_nth_filter [of ?mask "df_index prices"] mlen kept by simp
  have col: "select_rows ?mask (pct_change_col fm c) =
               map (\<lambda>t. Fin (fval (filled fm c ! t) / fval (filled fm c ! (t - 1)) - 1)) ?kept"
    if c: "c \<in> set ?vals" for c
  proof -
    have lc: "length c = ?n"
      by (rule price_frameD(2) [OF assms c])
    have "select_rows ?mask (pct_change_col fm c) = map ((!) (pct_change_col fm c)) ?kept"
      using select_rows_nth_filter [of ?mask "pct_change_col fm c"] mlen kept lc by simp
    also have "\<dots> = map (\<lambda>t. Fin (fval (filled fm c ! t) / fval (filled fm c ! (t - 1)) - 1)) ?kept"
    proof (rule map_cong [OF refl])
      fix t assume "t \<in> set ?kept"
      then have t: "1 \<le> t" "t < ?n" and r: "?R t"
        by auto
      from r c have nn: "\<not> isnan (filled fm c ! t)" "\<not> isnan (filled fm c ! (t - 1))"
        by auto
      have "is_price (filled fm c ! t)" "is_price (filled fm c ! (t - 1))"
        using price_frameD(3) [OF assms c] t by simp_all
      then show "pct_change_col fm c ! t =
                   Fin (fval (filled fm c ! t) / fval (filled fm c ! (t - 1)) - 1)"
        using t lc nn by (simp add: pct_change_col_nth pct_cell(2))
    qed
    finally show ?thesis .
  qed
  have vals: "map (select_rows ?mask) (map (pct_change_col fm) ?vals) =
                map (\<lambda>d. map (\<lambda>t. Fin (fval (d ! t) / fval (d ! (t - 1)) - 1)) ?kept) ?D"
    using col by (simp add: comp_def)
  show ?thesis
    unfolding Let_def calculate_returns_def dropna_def pct_change_def
    using idx vals by simp
qed

theorem calculate_returns_rows_witness:
  "price_frame gap_prices
   \<and> calculate_returns Pad gap_prices =
       \<lparr>df_index = [2, 3, 4],
        df_columns = [''A'', ''B''],
        df_values = [[Fin (1 / 10), Fin (1 / 10), Fin (1 / 10)],
                     [Fin (1 / 10), Fin 0, Fin (1 / 5)]]\<rparr>
   \<and> calculate_returns NoFill gap_prices =
       \<lparr>df_index = [2],
        df_columns = [''A'', ''B''],
        df_values = [[Fin (1 / 10)], [Fin (1 / 10)]]\<rparr>"
proof -
  have u: "[1..<4] = [1, 2, 3]"
    by (simp add: upt_rec)
  have p: "calculate_returns Pad gap_prices =
       \<lparr>df_index = [2, 3, 4],
        df_columns = [''A'', ''B''],
        df_values = [[Fin (1 / 10), Fin (1 / 10), Fin (1 / 10)],
                     [Fin (1 / 10), Fin 0, Fin (1 / 5)]]\<rparr>"
    using calculate_returns_rows [OF gap_prices_frame, of Pad]
    by (simp add: gap_prices_def filled_def ffill_def Let_def u)
  have n: "calculate_returns NoFill gap_prices =
       \<lparr>df_index = [2],
        df_columns = [''A'', ''B''],
        df_values = [[Fin (1 / 10)], [Fin (1 / 10)]]\<rparr>"
    using calculate_returns_rows [OF gap_prices_frame, of NoFill]
    by (simp add: gap_prices_def filled_def Let_def u)
  from gap_prices_frame p n show ?thesis
    by simp
qed

text \<open>
  The surviving dates are not the intersection of the assets' coverage. In
  \<open>gap_prices\<close> both assets have a price on the dates 1, 2 and 4. Without filling only
  date 2 survives, since the return on date 4 needs the missing price of date 3. With
  forward filling the dates 2, 3 and 4 survive: the second asset's return is 0 on date 3
  and is taken against the price of date 2 on date 4.
\<close>

theorem returns_rows_counterexample:
  "df_index (dropna gap_prices) = [1, 2, 4]
   \<and> df_index (calculate_returns Pad gap_prices) = [2, 3, 4]
   \<and> df_values (calculate_returns Pad gap_prices) =
       [[Fin (1 / 10), Fin (1 / 10), Fin (1 / 10)], [Fin (1 / 10), Fin 0, Fin (1 / 5)]]
   \<and> df_index (calculate_returns NoFill gap_prices) = [2]"
  by (simp add: calculate_returns_def dropna_def pct_change_def pct_change_col_def
        filled_def ffill_def shift1_def row_mask_def select_rows_def gap_prices_def
        fsub_def Let_def)

section \<open>The whole request\<close>

subsection \<open>Fetching and frames without rows\<close>

lemma fetch_loop_Inr:
  "fetch_loop history period pairs = Inr dl \<Longrightarrow>
   map fst dl = map snd pairs
   \<and> map (\<lambda>(name, ser). Inr ser) dl = map (\<lambda>(n, orig). history n period) pairs"
proof (induction pairs arbitrary: dl)
  case Nil
  then show ?case by simp
next
  case (Cons p pairs)
  obtain n orig where p: "p = (n, orig)" by (cases p)
  from Cons.prems p obtain ser rest where
    h: "history n period = Inr ser" and r: "fetch_loop history period pairs = Inr rest"
    and dl: "dl = (orig, ser) # rest"
    by (auto split: sum.splits)
  from Cons.IH [OF r] h dl p show ?case
    by simp
qed

lemma fetch_loop_total:
  "\<forall>(n, orig)\<in>set pairs. \<exists>ser. history n period = Inr ser \<Longrightarrow>
   \<exists>dl. fetch_loop history period pairs = Inr dl"
proof (induction pairs)
  case Nil
  then show ?case by simp
next
  case (Cons p pairs)
  obtain n orig where p: "p = (n, orig)" by (cases p)
  from Cons.prems p obtain ser where h: "history n period = Inr ser"
    by auto
  from Cons obtain rest where "fetch_loop history period pairs = Inr rest"
    by auto
  with h p show ?case
    by simp
qed

lemma length_reindex [simp]: "length (reindex idx s) = length idx"
  by (simp add: reindex_def)

lemma reindex_empty: "reindex idx [] = replicate (length idx) NaN"
  by (simp add: reindex_def map_replicate_const)

lemma fetch_historical_data_InrD:
  assumes "fetch_historical_data history symbols period = Inr prices"
  shows "symbols \<noteq> []"
    and "df_columns prices = symbols"
    and "length (df_values prices) = length symbols"
    and "\<forall>c\<in>set (df_values prices). length c = length (df_index prices)"
    and "\<And>k. k < length symbols \<Longrightarrow>
           history (normalize_symbol (symbols ! k)) period = Inr [] \<Longrightarrow>
           df_values prices ! k = replicate (length (df_index prices)) NaN"
proof -
  let ?pairs = "zip (normalize_symbols symbols) symbols"
  from assms obtain dl where loop: "fetch_loop history period ?pairs = Inr dl"
    and cat: "pd_concat dl = Inr prices"
    by (auto simp: fetch_historical_data_def Let_def split: sum.splits)
  from cat have ne: "dl \<noteq> []"
    by (auto simp: pd_concat_def split: if_splits)
  let ?idx = "sort (remdups (concat (map (\<lambda>(name, s). map fst s) dl)))"
  from cat ne have prices: "prices = \<lparr>df_index = ?idx, df_columns = map fst dl,
                df_values = map (\<lambda>(name, s). reindex ?idx s) dl\<rparr>"
    by (simp add: pd_concat_def Let_def)
  have snd_pairs: "map snd ?pairs = symbols"
    by (simp add: normalize_symbols_def)
  from fetch_loop_Inr [OF loop] snd_pairs
  have names: "map fst dl = symbols"
    and sers: "map (\<lambda>(name, ser). Inr ser) dl = map (\<lambda>(n, orig). history n period) ?pairs"
    by simp_all
  from names have len: "length dl = length symbols"
    by (metis length_map)
  show "symbols \<noteq> []"
    using ne len by auto
  show "df_columns prices = symbols"
    using prices names by simp
  show "length (df_values prices) = length symbols"
    using prices len by simp
  show "\<forall>c\<in>set (df_values prices). length c = length (df_index prices)"
    using prices by auto
  show "df_values prices ! k = replicate (length (df_index prices)) NaN"
    if k: "k < length symbols"
      and empty: "history (normalize_symbol (symbols ! k)) period = Inr []" for k
  proof -
    have "map (\<lambda>(name, ser). Inr ser) dl ! k = map (\<lambda>(n, orig). history n period) ?pairs ! k"
      using sers by simp
    then have "(case dl ! k of (name, ser) \<Rightarrow> Inr ser) = history (normalize_symbol (symbols ! k)) period"
      using k len by (simp add: normalize_symbols_def)
    with empty have "snd (dl ! k) = []"
      by (cases "dl ! k") simp
    then have "(case dl ! k of (name, s) \<Rightarrow> reindex ?idx s) = replicate (length ?idx) NaN"
      by (cases "dl ! k") (simp add: reindex_empty)
    with k len prices show ?thesis
      by simp
  qed
qed

lemma fmul_NaN_right [simp]: "fmul a NaN = NaN"
  by (cases a) simp_all

lemma pd_mean_Nil: "pd_mean [] = NaN"
  by (simp add: pd_mean_def)

lemma zero_rows_stats:
  "map pd_mean (replicate n []) = replicate n NaN"
  "pd_cov (replicate n []) = replicate n (replicate n NaN)"
  by (simp_all add: pd_mean_Nil pd_cov_def pd_cov_pair_def map_replicate_const)

lemma objective_zero_rows:
  assumes "0 < n"
  shows "objective (solver_call (replicate n NaN) (replicate n (replicate n NaN))) w = NaN"
proof (cases w)
  case Nil
  have "np_matvec (replicate n (replicate n NaN)) [] = replicate n (Fin 0)"
    by (simp add: np_matvec_def np_dot_def map_replicate_const)
  then show ?thesis
    using Nil by (simp add: solver_call_def portfolio_performance_def np_dot_def)
next
  case (Cons v vs)
  obtain m where n: "n = Suc m"
    using assms by (cases n) auto
  have "np_dot (v # vs) (replicate n NaN) = NaN"
    by (simp add: n np_dot_def)
  then show ?thesis
    using Cons by (simp add: solver_call_def portfolio_performance_def)
qed

lemma optimize_zero_rows:
  assumes "df_values returns = replicate n []" and "0 < n" and "nan_aware minimize"
  shows "optimize_portfolio minimize returns =
     Inl (case minimize (solver_call (replicate n NaN) (replicate n (replicate n NaN))) of
            Inl e \<Rightarrow> e
          | Inr r \<Rightarrow> ''Optimization failed'')"
proof -
  let ?call = "solver_call (replicate n NaN) (replicate n (replicate n NaN))"
  have call: "optimizer_call returns = ?call"
    unfolding optimizer_call_def assms(1) zero_rows_stats ..
  have ne: "df_values returns \<noteq> []"
    using assms(1,2) by auto
  have "\<not> success r" if "minimize ?call = Inr r" for r
  proof
    assume "success r"
    with assms(3) that have "\<not> isnan (objective ?call (xvec r))"
      by (simp add: nan_aware_def)
    then show False
      by (simp add: objective_zero_rows [OF assms(2)])
  qed
  then show ?thesis
    unfolding optimize_portfolio_cases call
    using ne by (auto split: sum.splits)
qed

lemma calculate_returns_shape:
  "df_columns (calculate_returns fm prices) = df_columns prices"
  "length (df_values (calculate_returns fm prices)) = length (df_values prices)"
  by (simp_all add: calculate_returns_def dropna_def pct_change_def Let_def)

lemma calculate_returns_zero_rows:
  assumes lens: "\<forall>c\<in>set (df_values prices). length c = length (df_index prices)"
      and zero: "df_index (calculate_returns fm prices) = []"
  shows "df_values (calculate_returns fm prices) = replicate (length (df_values prices)) []"
proof -
  let ?n = "length (df_index prices)"
  let ?P = "map (pct_change_col fm) (df_values prices)"
  let ?mask = "row_mask ?n ?P"
  have plens: "\<forall>c\<in>set ?P. length c = ?n"
    using lens by simp
  have mlen: "length ?mask = ?n"
    by (rule row_mask_length [OF plens])
  from zero have "select_rows ?mask (df_index prices) = []"
    by (simp add: calculate_returns_def dropna_def pct_change_def Let_def)
  then have none: "filter ((!) ?mask) [0..<?n] = []"
    using select_rows_nth_filter [of ?mask "df_index prices"] mlen by simp
  have "select_rows ?mask c = []" if "c \<in> set ?P" for c
  proof -
    have lc: "length c = ?n"
      using plens that by blast
    then have "select_rows ?mask c = map ((!) c) (filter ((!) ?mask) [0..<?n])"
      using select_rows_nth_filter [of ?mask c] mlen by simp
    with none show ?thesis
      by simp
  qed
  then have "map (select_rows ?mask) ?P = replicate (length ?P) []"
    by (simp add: map_replicate_const [symmetric] cong: map_cong)
  then show ?thesis
    by (simp add: calculate_returns_def dropna_def pct_change_def Let_def)
qed

lemma analyze_zero_rows:
  assumes "fetch_historical_data history symbols ''1y'' = Inr prices"
      and "df_index (calculate_returns fm prices) = []"
      and "nan_aware minimize"
  shows "analyze_portfolio history fm minimize symbols =
     ToolError (''Error optimizing portfolio: ''
                @ (case minimize (solver_call (replicate (length symbols) NaN)
                           (replicate (length symbols) (replicate (length symbols) NaN))) of
                     Inl e \<Rightarrow> e
                   | Inr r \<Rightarrow> ''Optimization failed''))"
proof -
  note f = fetch_historical_data_InrD [OF assms(1)]
  have vals: "df_values (calculate_returns fm prices) = replicate (length symbols) []"
    using calculate_returns_zero_rows [OF f(4) assms(2)] f(3) by simp
  have n: "0 < length symbols"
    using f(1) by simp
  show ?thesis
    using assms(1)
    by (simp add: analyze_portfolio_def Let_def optimize_zero_rows [OF vals n assms(3)])
qed

lemma ffill_from_all_NaN: "ffill_from NaN (replicate n NaN) = replicate n NaN"
  by (induction n) (simp_all add: Let_def)

lemma filled_all_NaN: "filled fm (replicate n NaN) = replicate n NaN"
  by (cases fm) (simp_all add: filled_def ffill_def ffill_from_all_NaN)

lemma pct_change_col_all_NaN:
  "t < n \<Longrightarrow> pct_change_col fm (replicate n NaN) ! t = NaN"
  by (simp add: pct_change_col_nth filled_all_NaN fsub_def)


lemma dropna_index_empty:
  assumes lens: "\<forall>c\<in>set (df_values prices). length c = length (df_index prices)"
      and nan: "\<And>t. t < length (df_index prices) \<Longrightarrow>
                  \<exists>c\<in>set (df_values prices). isnan (pct_change_col fm c ! t)"
  shows "df_index (calculate_returns fm prices) = []"
proof -
  let ?n = "length (df_index prices)"
  let ?P = "map (pct_change_col fm) (df_values prices)"
  let ?mask = "row_mask ?n ?P"
  have plens: "\<forall>c\<in>set ?P. length c = ?n"
    using lens by simp
  have mlen: "length ?mask = ?n"
    by (rule row_mask_length [OF plens])
  have "\<not> ?mask ! t" if "t < ?n" for t
    using row_mask_nth [OF plens that] nan [OF that] by auto
  then have "filter ((!) ?mask) [0..<?n] = []"
    by (simp add: filter_empty_conv)
  then have "select_rows ?mask (df_index prices) = []"
    using select_rows_nth_filter [of ?mask "df_index prices"] mlen by simp
  then show ?thesis
    by (simp add: calculate_returns_def dropna_def pct_change_def Let_def)
qed

subsection \<open>Concrete requests\<close>

lemma norm_A: "normalize_symbol ''A'' = ''A.NS''"
  and norm_B: "normalize_symbol ''B'' = ''B.NS''"
  and norm_C: "normalize_symbol ''C'' = ''C.NS''"
  and norm_D: "normalize_symbol ''D'' = ''D.NS''"
  and norm_E: "normalize_symbol ''E'' = ''E.NS''"
  by (simp_all add: normalize_symbol_def endswith_def)


lemma fetch_AB:
  "fetch_historical_data sample_history [''A'', ''B''] ''1y'' =
     Inr \<lparr>df_index = [1, 2, 3, 4], df_columns = [''A'', ''B''],
          df_values = [[Fin 100, Fin 110, Fin 132, Fin (858 / 5)], [NaN, NaN, NaN, NaN]]\<rparr>"
  by (simp add: fetch_historical_data_def normalize_symbols_def norm_A norm_B
        sample_history_def pd_concat_def reindex_def)

lemma fetch_DE:
  "fetch_historical_data sample_history [''D'', ''E''] ''1y'' =
     Inr \<lparr>df_index = [1, 2, 3, 4], df_columns = [''D'', ''E''],
          df_values = [[Fin 100, Fin 100, Fin 110, Fin 132],
                       [Fin 100, Fin 130, Fin 156, Fin (858 / 5)]]\<rparr>"
  by (simp add: fetch_historical_data_def normalize_symbols_def norm_D norm_E
        sample_history_def pd_concat_def reindex_def)

lemma returns_DE:
  "calculate_returns fm
     \<lparr>df_index = [1, 2, 3, 4], df_columns = [''D'', ''E''],
      df_values = [[Fin 100, Fin 100, Fin 110, Fin 132],
                   [Fin 100, Fin 130, Fin 156, Fin (858 / 5)]]\<rparr> =
   sample_returns\<lparr>df_columns := [''D'', ''E'']\<rparr>"
  by (cases fm)
     (simp_all add: sample_returns_def calculate_returns_def dropna_def pct_change_def
        pct_change_col_def filled_def ffill_def shift1_def row_mask_def select_rows_def
        fsub_def Let_def)

lemma non_convergence_DE:
  "analyze_portfolio sample_history fm failing_solver [''D'', ''E''] =
     ToolError ''Error optimizing portfolio: Optimization failed''"
  by (simp add: analyze_portfolio_def fetch_DE returns_DE optimize_portfolio_cases
        failing_solver_def sample_returns_def)

lemma zero_rows_AB:
  "df_index (calculate_returns fm
      \<lparr>df_index = [1, 2, 3, 4], df_columns = [''A'', ''B''],
       df_values = [[Fin 100, Fin 110, Fin 132, Fin (858 / 5)], [NaN, NaN, NaN, NaN]]\<rparr>) = []"
  by (cases fm)
     (simp_all add: calculate_returns_def dropna_def pct_change_def pct_change_col_def
        filled_def ffill_def shift1_def row_mask_def select_rows_def fsub_def Let_def)

lemma failing_solver_nan_aware: "nan_aware failing_solver"
  by (simp add: nan_aware_def failing_solver_def)

subsection \<open>Too little history\<close>




subsection \<open>A symbol without prices\<close>

text \<open>
  C5 (as amended). When the provider answers every requested symbol and one of them
  with an empty series, that symbol keeps its column (all NaN) and is never taken out of
  the request, the returns frame has no rows, and the whole request fails with an error
  result and no allocation, provided the solver does not report success at a point
  where its objective is NaN. The error result is the one of a failed optimization,
  \<open>Error optimizing portfolio: Optimization failed\<close>, or carries the solver's own
  exception when it raises: the source does not look at whether a series is empty and
  has no error of its own for unavailable data.
\<close>

theorem empty_series_ends_in_error:
  assumes "\<forall>s\<in>set symbols. \<exists>ser. history (normalize_symbol s) ''1y'' = Inr ser"
      and "b \<in> set symbols"
      and "history (normalize_symbol b) ''1y'' = Inr []"
      and "nan_aware minimize"
  shows "\<exists>prices. fetch_historical_data history symbols ''1y'' = Inr prices
     \<and> df_columns prices = symbols
     \<and> length (df_values prices) = length symbols
     \<and> df_index (calculate_returns fm prices) = []
     \<and> status (analyze_portfolio history fm minimize symbols) = ''error''
     \<and> analyze_portfolio history fm minimize symbols =
         ToolError (''Error optimizing portfolio: ''
                    @ (case minimize (solver_call (replicate (length symbols) NaN)
                           (replicate (length symbols) (replicate (length symbols) NaN))) of
                         Inl e \<Rightarrow> e
                       | Inr r \<Rightarrow> ''Optimization failed''))"
proof -
  let ?pairs = "zip (normalize_symbols symbols) symbols"
  have "\<forall>(n, orig)\<in>set ?pairs. \<exists>ser. history n ''1y'' = Inr ser"
    using assms(1) by (auto simp: normalize_symbols_def zip_map1 set_zip)
  then obtain dl where loop: "fetch_loop history ''1y'' ?pairs = Inr dl"
    using fetch_loop_total by blast
  from fetch_loop_Inr [OF loop] have "map fst dl = symbols"
    by (simp add: normalize_symbols_def)
  then have "length dl = length symbols"
    by (metis length_map)
  with assms(2) have "dl \<noteq> []"
    by auto
  then obtain prices where cat: "pd_concat dl = Inr prices"
    by (simp add: pd_concat_def Let_def)
  with loop have fetch: "fetch_historical_data history symbols ''1y'' = Inr prices"
    by (simp add: fetch_historical_data_def Let_def)
  note f = fetch_historical_data_InrD [OF fetch]
  from assms(2) obtain k where k: "k < length symbols" "symbols ! k = b"
    by (auto simp: in_set_conv_nth)
  let ?n = "length (df_index prices)"
  have colk: "df_values prices ! k = replicate ?n NaN"
    using f(5) [OF k(1)] k(2) assms(3) by simp
  have mem: "replicate ?n NaN \<in> set (df_values prices)"
    using colk k(1) f(3) by (metis nth_mem)
  have "\<exists>c\<in>set (df_values prices). isnan (pct_change_col fm c ! t)" if "t < ?n" for t
    using mem pct_change_col_all_NaN [OF that, of fm] by force
  then have zero: "df_index (calculate_returns fm prices) = []"
    by (rule dropna_index_empty [OF f(4)])
  note res = analyze_zero_rows [OF fetch zero assms(4)]
  have "status (analyze_portfolio history fm minimize symbols) = ''error''"
    by (simp add: res)
  with fetch f(2,3) zero res show ?thesis
    by blast
qed

theorem empty_series_ends_in_error_witness:
  "sample_history (normalize_symbol ''A'') ''1y'' =
     Inr [(1, Fin 100), (2, Fin 110), (3, Fin 132), (4, Fin (858 / 5))]
   \<and> sample_history (normalize_symbol ''B'') ''1y'' = Inr []
   \<and> ''B'' \<in> set [''A'', ''B'']
   \<and> nan_aware failing_solver
   \<and> fetch_historical_data sample_history [''A'', ''B''] ''1y'' =
       Inr \<lparr>df_index = [1, 2, 3, 4], df_columns = [''A'', ''B''],
            df_values = [[Fin 100, Fin 110, Fin 132, Fin (858 / 5)],
                         [NaN, NaN, NaN, NaN]]\<rparr>
   \<and> status (analyze_portfolio sample_history NoFill failing_solver [''A'', ''B'']) = ''error''
   \<and> analyze_portfolio sample_history NoFill failing_solver [''A'', ''B''] =
       ToolError ''Error optimizing portfolio: Optimization failed''"
proof -
  have a: "sample_history (normalize_symbol ''A'') ''1y'' =
     Inr [(1, Fin 100), (2, Fin 110), (3, Fin 132), (4, Fin (858 / 5))]"
    by (simp add: norm_A sample_history_def)
  have b: "sample_history (normalize_symbol ''B'') ''1y'' = Inr []"
    by (simp add: norm_B sample_history_def)
  have all: "\<forall>s\<in>set [''A'', ''B'']. \<exists>ser. sample_history (normalize_symbol s) ''1y'' = Inr ser"
    using a b by simp
  have mem: "''B'' \<in> set [''A'', ''B'']"
    by simp
  from empty_series_ends_in_error
         [of "[''A'', ''B'']" sample_history "''B''" failing_solver NoFill]
       all mem b failing_solver_nan_aware
  have "analyze_portfolio sample_history NoFill failing_solver [''A'', ''B''] =
       ToolError ''Error optimizing portfolio: Optimization failed''"
    by (auto simp: failing_solver_def)
  with a b mem fetch_AB failing_solver_nan_aware show ?thesis
    by simp
qed

text \<open>
  With \<open>B\<close> answered by an empty series the request ends in exactly the error result
  that a solver's non-convergence on two assets with four prices each produces: the
  result does not say that data was unavailable.
\<close>

theorem empty_series_label_counterexample:
  "analyze_portfolio sample_history Pad failing_solver [''A'', ''B''] =
     ToolError ''Error optimizing portfolio: Optimization failed''
   \<and> analyze_portfolio sample_history Pad failing_solver [''D'', ''E''] =
       ToolError ''Error optimizing portfolio: Optimization failed''"
proof -
  have "analyze_portfolio sample_history Pad failing_solver [''A'', ''B''] =
     ToolError ''Error optimizing portfolio: Optimization failed''"
    using analyze_zero_rows [OF fetch_AB zero_rows_AB failing_solver_nan_aware]
    by (simp add: failing_solver_def)
  with non_convergence_DE [of Pad] show ?thesis
    by simp
qed

end
